theory Spec2Isabelle
  imports Complex_Main
begin

section \<open>JavaScript values\<close>

text \<open>
  A JavaScript number is a finite value, one of the two infinities, or NaN. Finite
  values are rationals and finite arithmetic is exact: rounding to the nearest double
  and overflow of huge finite values are not modelled, and there is no negative zero.
  Every special value that the converters can produce (division by zero, arithmetic on
  a missing attribute) is explicit.
\<close>

datatype jsnum = Finite rat | PosInf | NegInf | NaN

fun js_mul :: "jsnum \<Rightarrow> jsnum \<Rightarrow> jsnum" where
  "js_mul (Finite a) (Finite b) = Finite (a * b)"
| "js_mul NaN _ = NaN"
| "js_mul _ NaN = NaN"
| "js_mul (Finite a) PosInf = (if a = 0 then NaN else if 0 < a then PosInf else NegInf)"
| "js_mul (Finite a) NegInf = (if a = 0 then NaN else if 0 < a then NegInf else PosInf)"
| "js_mul PosInf (Finite b) = (if b = 0 then NaN else if 0 < b then PosInf else NegInf)"
| "js_mul NegInf (Finite b) = (if b = 0 then NaN else if 0 < b then NegInf else PosInf)"
| "js_mul PosInf PosInf = PosInf"
| "js_mul PosInf NegInf = NegInf"
| "js_mul NegInf PosInf = NegInf"
| "js_mul NegInf NegInf = PosInf"

fun js_sub :: "jsnum \<Rightarrow> jsnum \<Rightarrow> jsnum" where
  "js_sub (Finite a) (Finite b) = Finite (a - b)"
| "js_sub NaN _ = NaN"
| "js_sub _ NaN = NaN"
| "js_sub (Finite a) PosInf = NegInf"
| "js_sub (Finite a) NegInf = PosInf"
| "js_sub PosInf (Finite b) = PosInf"
| "js_sub NegInf (Finite b) = NegInf"
| "js_sub PosInf PosInf = NaN"
| "js_sub PosInf NegInf = PosInf"
| "js_sub NegInf PosInf = NegInf"
| "js_sub NegInf NegInf = NaN"

fun js_div :: "jsnum \<Rightarrow> jsnum \<Rightarrow> jsnum" where
  "js_div (Finite a) (Finite b) =
     (if b = 0 then (if a = 0 then NaN else if 0 < a then PosInf else NegInf)
      else Finite (a / b))"
| "js_div NaN _ = NaN"
| "js_div _ NaN = NaN"
| "js_div (Finite a) PosInf = Finite 0"
| "js_div (Finite a) NegInf = Finite 0"
| "js_div PosInf (Finite b) = (if 0 \<le> b then PosInf else NegInf)"
| "js_div NegInf (Finite b) = (if 0 \<le> b then NegInf else PosInf)"
| "js_div PosInf PosInf = NaN"
| "js_div PosInf NegInf = NaN"
| "js_div NegInf PosInf = NaN"
| "js_div NegInf NegInf = NaN"

text \<open>Comparisons: every comparison with NaN is false.\<close>

fun js_gt :: "jsnum \<Rightarrow> jsnum \<Rightarrow> bool" where
  "js_gt (Finite a) (Finite b) = (b < a)"
| "js_gt NaN _ = False"
| "js_gt _ NaN = False"
| "js_gt PosInf PosInf = False"
| "js_gt PosInf _ = True"
| "js_gt NegInf _ = False"
| "js_gt (Finite a) PosInf = False"
| "js_gt (Finite a) NegInf = True"

fun js_ge :: "jsnum \<Rightarrow> jsnum \<Rightarrow> bool" where
  "js_ge (Finite a) (Finite b) = (b \<le> a)"
| "js_ge NaN _ = False"
| "js_ge _ NaN = False"
| "js_ge PosInf _ = True"
| "js_ge NegInf NegInf = True"
| "js_ge NegInf _ = False"
| "js_ge (Finite a) PosInf = False"
| "js_ge (Finite a) NegInf = True"

definition js_le :: "jsnum \<Rightarrow> jsnum \<Rightarrow> bool" where
  "js_le a b = js_ge b a"

text \<open>
  A numeric attribute that a frame may or may not carry is a \<open>jsnum option\<close>;
  \<open>None\<close> is JavaScript's \<open>undefined\<close>. Arithmetic on it goes through ToNumber
  (\<open>undefined\<close> becomes NaN). \<open>Number.parseFloat\<close> and \<open>Number\<close> print their
  argument and read it back, which returns a number unchanged and NaN for
  \<open>undefined\<close>.
\<close>

definition ToNumber :: "jsnum option \<Rightarrow> jsnum" where
  "ToNumber v = (case v of None \<Rightarrow> NaN | Some n \<Rightarrow> n)"

definition Number_parseFloat :: "jsnum option \<Rightarrow> jsnum" where
  "Number_parseFloat v = (case v of None \<Rightarrow> NaN | Some n \<Rightarrow> n)"

text \<open>
  Values: \<open>JObject\<close> is a plain object given by its own properties, and
  \<open>JBuiltin name\<close> is the member of \<open>Object.prototype\<close> of that name (a
  function; for the name \<open>__proto__\<close>, \<open>Object.prototype\<close> itself).
\<close>

datatype jsval =
    JUndefined
  | JNull
  | JBool bool
  | JNum jsnum
  | JStr string
  | JObject "(string \<times> jsval) list"
  | JBuiltin string

datatype js_error = TypeError string | Error string

type_synonym KeyValue = "string \<rightharpoonup> jsval"

subsection \<open>Properties of plain objects\<close>

text \<open>
  A property that an object does not have itself is looked for in its prototype. Every
  object written as a literal has the prototype \<open>Object.prototype\<close>, whose members
  are the names below; \<open>__proto__\<close> among them is an accessor that reads and replaces
  the prototype of the object it is used on.
\<close>

definition object_prototype_names :: "string list" where
  "object_prototype_names =
     [''constructor'', ''__defineGetter__'', ''__defineSetter__'', ''hasOwnProperty'',
      ''__lookupGetter__'', ''__lookupSetter__'', ''isPrototypeOf'', ''propertyIsEnumerable'',
      ''toString'', ''valueOf'', ''__proto__'', ''toLocaleString'']"



text \<open>
  An object whose properties change: its own properties (a map) and its prototype, which
  is \<open>Object.prototype\<close> until an assignment to \<open>__proto__\<close> replaces it by null,
  by a plain object or by a member of \<open>Object.prototype\<close>. Of a prototype of the last
  kind only the members it inherits from \<open>Object.prototype\<close> are modelled, not the
  function's own.
\<close>

datatype js_prototype =
    ObjectPrototype
  | NullPrototype
  | ObjectValue "(string \<times> jsval) list"
  | BuiltinValue string

text \<open>
  What \<open>Object.prototype\<close> gives for a key, on an object whose prototype is the value
  \<open>proto\<close>: the prototype for \<open>__proto__\<close>, the member for its other names.
\<close>

definition object_prototype_member :: "jsval \<Rightarrow> string \<Rightarrow> jsval" where
  "object_prototype_member proto key =
     (if key = ''__proto__'' then proto
      else if key \<in> set object_prototype_names then JBuiltin key
      else JUndefined)"

definition inherited_member :: "js_prototype \<Rightarrow> string \<Rightarrow> jsval" where
  "inherited_member proto key =
     (case proto of
        NullPrototype \<Rightarrow> JUndefined
      | ObjectPrototype \<Rightarrow> object_prototype_member (JBuiltin ''__proto__'') key
      | ObjectValue obj \<Rightarrow>
          (case map_of obj key of
             Some v \<Rightarrow> v
           | None \<Rightarrow> object_prototype_member (JObject obj) key)
      | BuiltinValue name \<Rightarrow> object_prototype_member (JBuiltin name) key)"

text \<open>Reading \<open>obj[key]\<close>: the own property, else what the prototype gives.\<close>

definition js_get :: "KeyValue \<Rightarrow> js_prototype \<Rightarrow> string \<Rightarrow> jsval" where
  "js_get own proto key =
     (case own key of Some v \<Rightarrow> v | None \<Rightarrow> inherited_member proto key)"

text \<open>
  The assignment \<open>obj[key] = value\<close>. It stores an own property, except for the key
  \<open>__proto__\<close> on an object that has no own property of that name and inherits the
  accessor: then an object or null becomes the prototype and any other value is ignored.
  The accessor is inherited unless the prototype is null or a plain object with an own
  property \<open>__proto__\<close>.
\<close>

definition inherits_proto_accessor :: "js_prototype \<Rightarrow> bool" where
  "inherits_proto_accessor proto =
     (case proto of
        NullPrototype \<Rightarrow> False
      | ObjectValue obj \<Rightarrow> map_of obj ''__proto__'' = None
      | _ \<Rightarrow> True)"

definition js_set :: "KeyValue \<Rightarrow> js_prototype \<Rightarrow> string \<Rightarrow> jsval \<Rightarrow> KeyValue \<times> js_prototype" where
  "js_set own proto key value =
     (if key = ''__proto__'' \<and> own key = None \<and> inherits_proto_accessor proto then
        (own,
         case value of
           JObject obj \<Rightarrow> ObjectValue obj
         | JNull \<Rightarrow> NullPrototype
         | JBuiltin name \<Rightarrow> (if name = ''__proto__'' then ObjectPrototype else BuiltinValue name)
         | _ \<Rightarrow> proto)
      else (own(key \<mapsto> value), proto))"

subsection \<open>Template literals\<close>

text \<open>Decimal rendering of a non-negative integer, as a template literal prints it.\<close>

function show_nat :: "nat \<Rightarrow> string" where
  "show_nat n =
     (if n < 10 then [''0123456789'' ! n]
      else show_nat (n div 10) @ [''0123456789'' ! (n mod 10)])"
  by pat_completeness auto
termination
  by (relation "measure id") auto

declare show_nat.simps [simp del]

text \<open>A template literal prints a string as it is and \<open>undefined\<close> as the word.\<close>

definition template_str :: "string option \<Rightarrow> string" where
  "template_str v = (case v of None \<Rightarrow> ''undefined'' | Some s \<Rightarrow> s)"

section \<open>Devices, endpoints, messages\<close>

record endpoint =
  ID :: nat

text \<open>
  \<open>isDummyDevice\<close> is the answer of \<open>utils.isDummyDevice\<close>. A device without an
  \<open>endpoints\<close> property is one with the empty list: the only guard on the property,
  \<open>device?.endpoints\<close>, skips a loop that would not run on the empty list either.
  \<open>device.meta\<close> is an object whose properties change: \<open>meta\<close> holds its own
  properties and \<open>meta_prototype\<close> its prototype.
\<close>

record device =
  ieeeAddr :: string
  isDummyDevice :: bool
  endpoints :: "endpoint list"
  meta :: KeyValue
  meta_prototype :: js_prototype

record command_frame =
  clusterID :: nat
  attributes :: "string \<rightharpoonup> jsnum"

text \<open>
  \<open>msg.data\<close>: the numeric attributes of a ZCL report by name (\<open>attrs\<close>), and the
  fields of a green-power notification. \<open>options\<close> is the 16-bit options field of the
  frame, so the bitwise operator of the source works on it as on a natural number.
\<close>

record msg_data =
  attrs :: "string \<rightharpoonup> jsnum"
  commandID :: nat
  frameCounter :: nat
  options :: nat
  commandFrame :: command_frame
  gppNwkAddr :: nat
  srcID :: nat

record message =
  msg_type :: string
  data :: msg_data
  device :: device
  endpoint :: endpoint

text \<open>
  The parts of a device definition that the converters and their helpers read:
  \<open>model.meta?.multiEndpoint\<close> and \<open>model.meta?.publishDuplicateTransaction\<close> (their
  truthiness) and the optional \<open>model.endpoint\<close> function.
\<close>

record device_definition =
  multiEndpoint :: bool
  publishDuplicateTransaction :: bool
  endpoint_of :: "(device \<Rightarrow> (string \<rightharpoonup> nat)) option"

section \<open>Device metadata options (ptvoGetMetaOption, ptvoSetMetaOption)\<close>

definition ptvoGetMetaOption :: "device \<Rightarrow> string \<Rightarrow> jsval \<Rightarrow> jsval" where
  "ptvoGetMetaOption dev key defaultValue =
     (if \<not> isDummyDevice dev then
        (let value = js_get (meta dev) (meta_prototype dev) key
         in if value = JUndefined then defaultValue else value)
      else defaultValue)"

text \<open>
  The assignment \<open>device.meta[key] = value\<close> mutates the device in place; the model
  returns the device after the call. \<open>None\<close> is a null (or undefined) device or key.
\<close>

definition ptvoSetMetaOption :: "device option \<Rightarrow> string option \<Rightarrow> jsval \<Rightarrow> device option" where
  "ptvoSetMetaOption dev key value =
     (case (dev, key) of
        (Some d, Some k) \<Rightarrow>
          (let (own, proto) = js_set (meta d) (meta_prototype d) k value
           in Some (d\<lparr>meta := own, meta_prototype := proto\<rparr>))
      | _ \<Rightarrow> dev)"

section \<open>The endpoint map of ptvo.switch\<close>

definition epName :: "nat \<Rightarrow> string" where
  "epName epId = ''l'' @ show_nat epId"

text \<open>
  \<open>endpointList\<close> is created as an array and then used as an object: every write
  goes to a named property. The names written are \<open>l<number>\<close> and \<open>action\<close>,
  never an array index, so the array's \<open>length\<close> is not touched by a write.
\<close>

record endpoint_list =
  array_length :: nat
  named :: "string \<rightharpoonup> nat"

definition set_named :: "string \<Rightarrow> nat \<Rightarrow> endpoint_list \<Rightarrow> endpoint_list" where
  "set_named name v el = el\<lparr>named := (named el)(name \<mapsto> v)\<rparr>"

fun device_endpoints_loop :: "endpoint list \<Rightarrow> endpoint_list \<Rightarrow> endpoint_list" where
  "device_endpoints_loop [] endpointList = endpointList"
| "device_endpoints_loop (ep # eps) endpointList =
     (let epId = ID ep
      in device_endpoints_loop eps (set_named (epName epId) epId endpointList))"

text \<open>The fallback loop: \<open>for (let epId = 1; epId <= 8; epId++)\<close>, entered with \<open>epId = 1\<close>.\<close>

function fallback_loop :: "nat \<Rightarrow> endpoint_list \<Rightarrow> endpoint_list" where
  "fallback_loop epId endpointList =
     (if epId \<le> 8 then fallback_loop (epId + 1) (set_named (epName epId) epId endpointList)
      else endpointList)"
  by pat_completeness auto
termination
  by (relation "measure (\<lambda>(epId, endpointList). 9 - epId)") auto

declare fallback_loop.simps [simp del]

text \<open>
  \<open>deviceConfig.split(/[\r\n]+/)\<close>: the pieces between maximal runs of carriage
  returns and line feeds; a separator at either end leaves an empty piece there.
\<close>

definition is_newline :: "char \<Rightarrow> bool" where
  "is_newline c = (c = CHR 0x0D \<or> c = CHR 0x0A)"

function split_lines :: "string \<Rightarrow> string list" where
  "split_lines [] = [[]]"
| "split_lines (c # cs) =
     (if is_newline c then [] # split_lines (dropWhile is_newline cs)
      else (case split_lines cs of
              piece # pieces \<Rightarrow> (c # piece) # pieces
            | [] \<Rightarrow> [[c]]))"
  by pat_completeness auto
termination
  by (relation "measure length") (auto simp: length_dropWhile_le less_Suc_eq_le)

text \<open>
  \<open>epConfig.match(/^([0-9A-F]+)/)\<close>: the longest run of upper-case hexadecimal
  digits at the start of the line (\<open>matches[0]\<close>), no match when the run is empty.
  \<open>Number.parseInt(matches[0], 16)\<close> reads it; the value is exact for every run
  below \<open>2^53\<close>.
\<close>

definition is_hex_digit :: "char \<Rightarrow> bool" where
  "is_hex_digit c = (c \<in> set ''0123456789ABCDEF'')"

definition match_hex_prefix :: "string \<Rightarrow> string option" where
  "match_hex_prefix epConfig =
     (let run = takeWhile is_hex_digit epConfig in if run = [] then None else Some run)"

definition hex_value :: "char \<Rightarrow> nat" where
  "hex_value c = length (takeWhile (\<lambda>d. d \<noteq> c) ''0123456789ABCDEF'')"

definition parseInt16 :: "string \<Rightarrow> nat" where
  "parseInt16 digits = foldl (\<lambda>acc c. 16 * acc + hex_value c) 0 digits"

fun device_config_loop :: "string list \<Rightarrow> endpoint_list \<Rightarrow> endpoint_list" where
  "device_config_loop [] endpointList = endpointList"
| "device_config_loop (epConfig # rest) endpointList =
     (case match_hex_prefix epConfig of
        None \<Rightarrow> device_config_loop rest endpointList
      | Some matched \<Rightarrow>
          (let epId = parseInt16 matched
           in device_config_loop rest (set_named (epName epId) epId endpointList)))"

text \<open>
  The stored configuration is whatever \<open>device.meta.device_config\<close> holds. The code
  compares it with the empty string and otherwise calls its \<open>split\<close> method, which
  only a string has.
\<close>

definition ptvo_switch_endpoint :: "device \<Rightarrow> js_error + endpoint_list" where
  "ptvo_switch_endpoint dev =
     (let endpointList = \<lparr>array_length = 0, named = Map.empty\<rparr>;
          deviceConfig = ptvoGetMetaOption dev ''device_config'' (JStr '''');
          endpointList = device_endpoints_loop (endpoints dev) endpointList
      in if deviceConfig = JStr '''' then
           (let endpointList =
                  (if array_length endpointList = 0 then fallback_loop 1 endpointList
                   else endpointList)
            in Inr (set_named ''action'' 1 endpointList))
         else
           (case deviceConfig of
              JStr config \<Rightarrow>
                Inr (set_named ''action'' 1
                       (device_config_loop (split_lines config) endpointList))
            | _ \<Rightarrow> Inl (TypeError ''deviceConfig.split is not a function'')))"

section \<open>fromZigbee converters of the custom-device file\<close>

text \<open>
  The helpers that these converters import from \<open>lib/utils\<close> are not part of these
  files; the converters take them as parameters. \<open>'o\<close> is the type of the converter
  options and \<open>'x\<close> that of the \<open>meta\<close> argument.
\<close>

record ('o, 'x) library =
  calibrateAndPrecisionRoundOptions :: "jsnum \<Rightarrow> 'o \<Rightarrow> string \<Rightarrow> jsnum"
  postfixWithEndpointName :: "string \<Rightarrow> message \<Rightarrow> device_definition \<Rightarrow> 'x \<Rightarrow> string"
  getKey :: "(string \<rightharpoonup> nat) \<Rightarrow> jsnum option \<Rightarrow> string option"

definition humidity2_convert ::
  "('o, 'x) library \<Rightarrow> device_definition \<Rightarrow> message \<Rightarrow> 'o \<Rightarrow> 'x \<Rightarrow> KeyValue option" where
  "humidity2_convert lib model msg opts mta =
     (let humidity = js_div (Number_parseFloat (attrs (data msg) ''measuredValue'')) (Finite 100);
          humidity = calibrateAndPrecisionRoundOptions lib humidity opts ''humidity''
      in if js_ge humidity (Finite 0) \<and> js_le humidity (Finite 100) then
           (let property =
                  (if multiEndpoint model then postfixWithEndpointName lib ''humidity'' msg model mta
                   else ''humidity'')
            in Some [property \<mapsto> JNum humidity])
         else None)"

definition multi_zig_sw_battery_convert :: "message \<Rightarrow> KeyValue option" where
  "multi_zig_sw_battery_convert msg =
     (let voltage = js_mul (ToNumber (attrs (data msg) ''batteryVoltage'')) (Finite 100);
          battery = js_div (js_sub voltage (Finite 2200)) (Finite 8)
      in Some [''battery'' \<mapsto> JNum (if js_gt battery (Finite 100) then Finite 100 else battery),
               ''voltage'' \<mapsto> JNum voltage])"

text \<open>
  \<open>model.endpoint?.(msg.device) ?? {}\<close>: the endpoint map of the definition, the empty
  object when the definition has no endpoint function.
\<close>

definition model_endpoints :: "device_definition \<Rightarrow> device \<Rightarrow> (string \<rightharpoonup> nat)" where
  "model_endpoints model dev = (case endpoint_of model of None \<Rightarrow> Map.empty | Some f \<Rightarrow> f dev)"

definition actionLookup :: "(rat \<times> string) list" where
  "actionLookup = [(0, ''release''), (1, ''single''), (2, ''double''), (3, ''triple''), (4, ''hold'')]"

text \<open>
  Indexing a table whose keys are integers by a number: the number is printed and
  looked up, so only a finite value equal to a key finds an entry; \<open>undefined\<close>, NaN
  and the infinities find none.
\<close>

definition js_index :: "(rat \<times> 'a) list \<Rightarrow> jsnum option \<Rightarrow> 'a option" where
  "js_index table v = (case v of Some (Finite r) \<Rightarrow> map_of table r | _ \<Rightarrow> None)"

definition multi_zig_sw_switch_buttons_convert ::
  "('o, 'x) library \<Rightarrow> device_definition \<Rightarrow> message \<Rightarrow> KeyValue option" where
  "multi_zig_sw_switch_buttons_convert lib model msg =
     (let button = getKey lib (model_endpoints model (device msg))
                     (Some (Finite (of_nat (ID (endpoint msg)))));
          value = attrs (data msg) ''presentValue'';
          action = js_index actionLookup value
      in Some [''action'' \<mapsto> JStr (template_str button @ ''_'' @ template_str action)])"


text \<open>The action values that the MULTI-ZIG-SW definition exposes.\<close>

definition multi_zig_sw_exposed_actions :: "string list" where
  "multi_zig_sw_exposed_actions = [''single'', ''double'', ''triple'', ''hold'', ''release'']"

section \<open>toZigbee converters\<close>

subsection \<open>tzLocal.fan_mode\<close>

text \<open>
  Modelled from the spec: \<open>utils.assertString\<close> of \<open>lib/utils\<close> is not part of these
  files. It throws unless the value is a string.
\<close>

definition assertString :: "jsval \<Rightarrow> js_error option" where
  "assertString value =
     (case value of JStr s \<Rightarrow> None | _ \<Rightarrow> Some (Error ''Value is not a string''))"

text \<open>
  \<open>toLowerCase\<close> on the letters A to Z; every other character is left as it is. No
  character outside A to Z becomes \<open>o\<close> or \<open>n\<close> in lower case, so the comparison
  with \<open>on\<close> has the same answer as in JavaScript.
\<close>

definition lower_char :: "char \<Rightarrow> char" where
  "lower_char c =
     (case map_of (zip ''ABCDEFGHIJKLMNOPQRSTUVWXYZ'' ''abcdefghijklmnopqrstuvwxyz'') c of
        Some l \<Rightarrow> l
      | None \<Rightarrow> c)"

definition toLowerCase :: "string \<Rightarrow> string" where
  "toLowerCase s = map lower_char s"

text \<open>
  \<open>tzLocal.fan_mode.convertSet\<close>. \<open>tz.fan_mode.convertSet\<close> of the shared converters is
  a parameter; \<open>'r\<close> is all that a call of it does (what it sends, and what it returns
  or throws).
\<close>

definition fan_mode_convertSet ::
  "('e \<Rightarrow> string \<Rightarrow> jsval \<Rightarrow> 'x \<Rightarrow> 'r) \<Rightarrow> 'e \<Rightarrow> string \<Rightarrow> jsval \<Rightarrow> 'x \<Rightarrow> js_error + 'r" where
  "fan_mode_convertSet tz_fan_mode_convertSet entity key value mta =
     (case assertString value of
        Some err \<Rightarrow> Inl err
      | None \<Rightarrow>
          (case value of
             JStr s \<Rightarrow>
               (let value = (if toLowerCase s = ''on'' then JStr ''low'' else value)
                in Inr (tz_fan_mode_convertSet entity key value mta))
           | _ \<Rightarrow> Inl (TypeError ''value.toLowerCase is not a function'')))"

subsection \<open>tzLocal.multi_zig_sw_switch_type\<close>









section \<open>fzLocal.schneider_powertag\<close>

text \<open>
  \<open>if (attr.x !== undefined) ret.key = f(attr.x)\<close>: one conditional assignment to the
  result.
\<close>

definition when_defined ::
  "jsnum option \<Rightarrow> string \<Rightarrow> (jsnum \<Rightarrow> jsnum) \<Rightarrow> KeyValue \<Rightarrow> KeyValue" where
  "when_defined attr key f ret = (case attr of None \<Rightarrow> ret | Some v \<Rightarrow> ret(key \<mapsto> JNum (f v)))"

text \<open>Cluster 2820, haElectricalMeasurement.\<close>

definition powertag_electrical :: "(string \<rightharpoonup> jsnum) \<Rightarrow> KeyValue \<Rightarrow> KeyValue" where
  "powertag_electrical attr ret =
     (let acCurrentDivisor = ToNumber (attr ''acCurrentDivisor'');
          acVoltageDivisor = ToNumber (attr ''acVoltageDivisor'');
          acFrequencyDivisor = ToNumber (attr ''acFrequencyDivisor'');
          powerDivisor = ToNumber (attr ''powerDivisor'');
          ret = when_defined (attr ''rmsVoltage'') ''voltage_phase_a''
                  (\<lambda>v. js_div v acVoltageDivisor) ret;
          ret = when_defined (attr ''rmsVoltagePhB'') ''voltage_phase_b''
                  (\<lambda>v. js_div v acVoltageDivisor) ret;
          ret = when_defined (attr ''rmsVoltagePhC'') ''voltage_phase_c''
                  (\<lambda>v. js_div v acVoltageDivisor) ret;
          ret = when_defined (attr ''19200'') ''voltage_phase_ab''
                  (\<lambda>v. js_div v acVoltageDivisor) ret;
          ret = when_defined (attr ''19456'') ''voltage_phase_bc''
                  (\<lambda>v. js_div v acVoltageDivisor) ret;
          ret = when_defined (attr ''19712'') ''voltage_phase_ca''
                  (\<lambda>v. js_div v acVoltageDivisor) ret;
          ret = when_defined (attr ''rmsCurrent'') ''current_phase_a''
                  (\<lambda>v. js_div v acCurrentDivisor) ret;
          ret = when_defined (attr ''rmsCurrentPhB'') ''current_phase_b''
                  (\<lambda>v. js_div v acCurrentDivisor) ret;
          ret = when_defined (attr ''rmsCurrentPhC'') ''current_phase_c''
                  (\<lambda>v. js_div v acCurrentDivisor) ret;
          ret = when_defined (attr ''totalActivePower'') ''power''
                  (\<lambda>v. js_div (js_mul v (Finite 1000)) powerDivisor) ret;
          ret = when_defined (attr ''totalApparentPower'') ''power_apparent''
                  (\<lambda>v. js_div (js_mul v (Finite 1000)) powerDivisor) ret;
          ret = when_defined (attr ''acFrequency'') ''ac_frequency''
                  (\<lambda>v. js_div v acFrequencyDivisor) ret;
          ret = when_defined (attr ''activePower'') ''power_phase_a''
                  (\<lambda>v. js_div (js_mul v (Finite 1000)) powerDivisor) ret;
          ret = when_defined (attr ''activePowerPhB'') ''power_phase_b''
                  (\<lambda>v. js_div (js_mul v (Finite 1000)) powerDivisor) ret;
          ret = when_defined (attr ''activePowerPhC'') ''power_phase_c''
                  (\<lambda>v. js_div (js_mul v (Finite 1000)) powerDivisor) ret
      in ret)"

text \<open>Cluster 1794, seMetering.\<close>

definition powertag_metering :: "(string \<rightharpoonup> jsnum) \<Rightarrow> KeyValue \<Rightarrow> KeyValue" where
  "powertag_metering attr ret =
     (let divisor = ToNumber (attr ''divisor'');
          ret = when_defined (attr ''currentSummDelivered'') ''energy''
                  (\<lambda>val. js_div val divisor) ret;
          ret = when_defined (attr ''16652'') ''energy_phase_a'' (\<lambda>val. js_div val divisor) ret;
          ret = when_defined (attr ''16908'') ''energy_phase_b'' (\<lambda>val. js_div val divisor) ret;
          ret = when_defined (attr ''17164'') ''energy_phase_c'' (\<lambda>val. js_div val divisor) ret;
          ret = when_defined (attr ''powerFactor'') ''power_factor'' (\<lambda>v. v) ret
      in ret)"

text \<open>
  The two nested switch statements, on the command and on the cluster of its frame.
  Command 0xa3 and every other command leave the result empty, as does every other
  cluster.
\<close>

definition powertag_ret :: "msg_data \<Rightarrow> KeyValue" where
  "powertag_ret d =
     (let ret = Map.empty
      in if commandID d = 0xa1 then
           (let attr = attributes (commandFrame d);
                cluster = clusterID (commandFrame d)
            in if cluster = 2820 then powertag_electrical attr ret
               else if cluster = 1794 then powertag_metering attr ret
               else ret)
         else ret)"

text \<open>
  The acknowledgement sent when the frame asks for one. \<open>getNetworkParameters\<close> is the
  adapter's answer (the channel, or the error of a rejected call) and
  \<open>commandResponse\<close> the outcome of \<open>msg.endpoint.commandResponse\<close> for a cluster, a
  command and a payload (\<open>None\<close> when it resolves); the call passes the fixed options
  \<open>srcEndpoint: 242, disableDefaultResponse: true\<close>.
\<close>

record gp_response =
  rsp_options :: nat
  tempMaster :: nat
  tempMasterTx :: int
  rsp_srcID :: nat
  gpdCmd :: nat
  gpdPayload_commandID :: nat
  gpdPayload_buffer :: "nat list"

record gp_io =
  getNetworkParameters :: "js_error + nat"
  commandResponse :: "string \<Rightarrow> string \<Rightarrow> gp_response \<Rightarrow> js_error option"

definition powertag_ack :: "gp_io \<Rightarrow> message \<Rightarrow> js_error option" where
  "powertag_ack io msg =
     (case getNetworkParameters io of
        Inl err \<Rightarrow> Some err
      | Inr channel \<Rightarrow>
          (let payload =
                 \<lparr>rsp_options = 0, tempMaster = gppNwkAddr (data msg),
                  tempMasterTx = int channel - 11, rsp_srcID = srcID (data msg),
                  gpdCmd = 0xfe, gpdPayload_commandID = 0xfe, gpdPayload_buffer = [0]\<rparr>
           in commandResponse io ''greenPower'' ''response'' payload))"

text \<open>
  \<open>utils.hasAlreadyProcessedMessage\<close> is not part of these files and keeps a record of
  its own between calls. The converter takes it as the parameter \<open>dedup\<close>: from the
  record before the call (\<open>'s\<close>), the message, the definition, an id and a key it gives
  its answer and the record after the call. The converter returns the record after its
  run together with what it returns (\<open>None\<close> for returning nothing) or throws.
\<close>

definition schneider_powertag_convert ::
  "('s \<Rightarrow> message \<Rightarrow> device_definition \<Rightarrow> nat \<Rightarrow> string \<Rightarrow> bool \<times> 's) \<Rightarrow> gp_io \<Rightarrow>
   's \<Rightarrow> device_definition \<Rightarrow> message \<Rightarrow> 's \<times> (js_error + KeyValue option)" where
  "schneider_powertag_convert dedup io store model msg =
     (if msg_type msg \<noteq> ''commandNotification'' then (store, Inr None)
      else
        (let command = commandID (data msg);
             (already, store) =
               dedup store msg model (frameCounter (data msg))
                 (ieeeAddr (device msg) @ ''_'' @ show_nat command)
         in if already then (store, Inr None)
            else
              (let rxAfterTx = and (options (data msg)) (push_bit 11 1);
                   ret = powertag_ret (data msg)
               in if rxAfterTx \<noteq> 0 then
                    (case powertag_ack io msg of
                       Some err \<Rightarrow> (store, Inl err)
                     | None \<Rightarrow> (store, Inr (Some ret)))
                  else (store, Inr (Some ret)))))"

text \<open>
  Modelled from the spec: \<open>hasAlreadyProcessedMessage\<close> of \<open>lib/utils\<close> is not part of
  these files, and the spec does not describe it. The model follows the helper of the
  library as it is called here, with an id (the frame counter) and a key (the device
  address and the command) that is not empty. On a definition that sets
  \<open>publishDuplicateTransaction\<close> it answers no and records nothing. Otherwise it
  answers yes when the id is among the ids recorded under the key; when it is not, it
  answers no and puts the id first under the key, keeping the five most recent ones.
\<close>

type_synonym transaction_store = "string \<Rightarrow> nat list"

definition hasAlreadyProcessedMessage ::
  "transaction_store \<Rightarrow> message \<Rightarrow> device_definition \<Rightarrow> nat \<Rightarrow> string \<Rightarrow> bool \<times> transaction_store" where
  "hasAlreadyProcessedMessage store msg model currentID key =
     (if publishDuplicateTransaction model then (False, store)
      else if currentID \<in> set (store key) then (True, store)
      else (False, store(key := take 5 (currentID # store key))))"

definition empty_store :: transaction_store where
  "empty_store = (\<lambda>key. [])"

section \<open>Example inputs\<close>

definition example_endpoint :: "nat \<Rightarrow> endpoint" where
  "example_endpoint n = \<lparr>ID = n\<rparr>"

definition example_device :: device where
  "example_device =
     \<lparr>ieeeAddr = ''0x00000000e1234567'', isDummyDevice = False,
      endpoints = [example_endpoint 1, example_endpoint 2], meta = Map.empty,
      meta_prototype = ObjectPrototype\<rparr>"

definition example_data :: "(string \<rightharpoonup> jsnum) \<Rightarrow> msg_data" where
  "example_data a =
     \<lparr>attrs = a, commandID = 0, frameCounter = 0, options = 0,
      commandFrame = \<lparr>clusterID = 0, attributes = Map.empty\<rparr>, gppNwkAddr = 0, srcID = 0\<rparr>"

definition example_report :: "(string \<rightharpoonup> jsnum) \<Rightarrow> message" where
  "example_report a =
     \<lparr>msg_type = ''attributeReport'', data = example_data a, device = example_device,
      endpoint = example_endpoint 2\<rparr>"

text \<open>
  Stand-ins for the library helpers, used to run the converters on concrete inputs:
  no calibration, the endpoint's number as postfix, the first name bound to a number.
\<close>

definition example_library :: "(unit, unit) library" where
  "example_library =
     \<lparr>calibrateAndPrecisionRoundOptions = (\<lambda>v opts name. v),
      postfixWithEndpointName = (\<lambda>name msg model mta. name @ ''_l'' @ show_nat (ID (endpoint msg))),
      getKey = (\<lambda>obj v. if v = Some (Finite 2) then Some ''button_1'' else None)\<rparr>"

definition multi_zig_sw_model :: device_definition where
  "multi_zig_sw_model =
     \<lparr>multiEndpoint = True, publishDuplicateTransaction = False,
      endpoint_of = Some (\<lambda>dev. [''button_1'' \<mapsto> 2, ''button_2'' \<mapsto> 3,
                                   ''button_3'' \<mapsto> 4, ''button_4'' \<mapsto> 5])\<rparr>"

definition plain_model :: device_definition where
  "plain_model =
     \<lparr>multiEndpoint = False, publishDuplicateTransaction = False, endpoint_of = None\<rparr>"

definition configured_device :: device where
  "configured_device =
     example_device\<lparr>meta := [''device_config'' \<mapsto>
        JStr (''1W'' @ [CHR 0x0D, CHR 0x0A] @ ''A0R,lx'' @ [CHR 0x0A] @ ''foo'')]\<rparr>"


definition quiet_io :: gp_io where
  "quiet_io = \<lparr>getNetworkParameters = Inr 15, commandResponse = (\<lambda>cluster command payload. None)\<rparr>"

definition powertag_notification :: "nat \<Rightarrow> nat \<Rightarrow> nat \<Rightarrow> (string \<rightharpoonup> jsnum) \<Rightarrow> message" where
  "powertag_notification counter opts cluster attr =
     \<lparr>msg_type = ''commandNotification'',
      data = \<lparr>attrs = Map.empty, commandID = 0xa1, frameCounter = counter, options = opts,
              commandFrame = \<lparr>clusterID = cluster, attributes = attr\<rparr>,
              gppNwkAddr = 4660, srcID = 3774\<rparr>,
      device = example_device, endpoint = example_endpoint 242\<rparr>"

definition metering_notification :: message where
  "metering_notification =
     powertag_notification 7 2048 1794
       [''currentSummDelivered'' \<mapsto> Finite 123456, ''divisor'' \<mapsto> Finite 1000]"

definition electrical_notification :: message where
  "electrical_notification =
     powertag_notification 8 0 2820
       [''totalActivePower'' \<mapsto> Finite 5, ''powerDivisor'' \<mapsto> Finite 1000]"

definition commissioning_notification :: message where
  "commissioning_notification =
     (powertag_notification 1 0 0 Map.empty)\<lparr>msg_type := ''commandCommissioningNotification''\<rparr>"

text \<open>
  A metering frame with a given frame counter, and the record of processed frames after
  the converter has run on a sequence of such frames, one after the other.
\<close>

definition metering_frame :: "nat \<Rightarrow> message" where
  "metering_frame counter =
     powertag_notification counter 0 1794
       [''currentSummDelivered'' \<mapsto> Finite 123456, ''divisor'' \<mapsto> Finite 1000]"

fun process_frames :: "nat list \<Rightarrow> transaction_store \<Rightarrow> transaction_store" where
  "process_frames [] store = store"
| "process_frames (counter # counters) store =
     process_frames counters
       (fst (schneider_powertag_convert hasAlreadyProcessedMessage quiet_io store plain_model
               (metering_frame counter)))"

declare process_frames.simps [simp del]

section \<open>Verified properties\<close>

subsection \<open>fzLocal.multi_zig_sw_battery\<close>

lemma js_gt_cap: "\<not> js_gt (if js_gt b (Finite 100) then Finite 100 else b) (Finite 100)"
  by simp

text \<open>
  Claim C7. For every genPowerCfg report, \<open>fzLocal.multi_zig_sw_battery\<close> returns
  voltage = batteryVoltage * 100 and battery = (voltage - 2200) / 8, replaced by 100 when
  it is greater than 100. The returned battery is never greater than 100, and for a
  batteryVoltage of at most 30 it is (batteryVoltage * 100 - 2200) / 8 itself: there is no
  lower cap, so it can be negative (it is - 150 for a batteryVoltage of 10).
\<close>

theorem multi_zig_sw_battery_capped:
  "\<exists>battery voltage.
     multi_zig_sw_battery_convert msg =
       Some [''battery'' \<mapsto> JNum battery, ''voltage'' \<mapsto> JNum voltage]
     \<and> voltage = js_mul (ToNumber (attrs (data msg) ''batteryVoltage'')) (Finite 100)
     \<and> battery =
         (if js_gt (js_div (js_sub voltage (Finite 2200)) (Finite 8)) (Finite 100) then Finite 100
          else js_div (js_sub voltage (Finite 2200)) (Finite 8))
     \<and> \<not> js_gt battery (Finite 100)
     \<and> (\<forall>v. attrs (data msg) ''batteryVoltage'' = Some v \<longrightarrow> js_le v (Finite 30) \<longrightarrow>
            battery = js_div (js_sub (js_mul v (Finite 100)) (Finite 2200)) (Finite 8))
     \<and> (\<forall>r. attrs (data msg) ''batteryVoltage'' = Some (Finite r) \<longrightarrow> r \<le> 30 \<longrightarrow>
            battery = Finite ((r * 100 - 2200) / 8))"
proof -
  define voltage where "voltage = js_mul (ToNumber (attrs (data msg) ''batteryVoltage'')) (Finite 100)"
  define raw where "raw = js_div (js_sub voltage (Finite 2200)) (Finite 8)"
  define battery where "battery = (if js_gt raw (Finite 100) then Finite 100 else raw)"
  have conv: "multi_zig_sw_battery_convert msg =
      Some [''battery'' \<mapsto> JNum battery, ''voltage'' \<mapsto> JNum voltage]"
    by (simp add: multi_zig_sw_battery_convert_def Let_def voltage_def raw_def battery_def)
  have cap: "\<not> js_gt battery (Finite 100)"
    unfolding battery_def by (rule js_gt_cap)
  have uncapped: "battery = js_div (js_sub (js_mul v (Finite 100)) (Finite 2200)) (Finite 8)"
    if "attrs (data msg) ''batteryVoltage'' = Some v" and "js_le v (Finite 30)" for v
  proof -
    have "raw = js_div (js_sub (js_mul v (Finite 100)) (Finite 2200)) (Finite 8)"
      using that by (simp add: raw_def voltage_def ToNumber_def)
    moreover have "\<not> js_gt (js_div (js_sub (js_mul v (Finite 100)) (Finite 2200)) (Finite 8)) (Finite 100)"
      using that(2) by (cases v) (simp_all add: js_le_def)
    ultimately show ?thesis
      by (simp add: battery_def)
  qed
  have low: "battery = Finite ((r * 100 - 2200) / 8)"
    if "attrs (data msg) ''batteryVoltage'' = Some (Finite r)" and "r \<le> 30" for r
    using uncapped [OF that(1)] that(2) by (simp add: js_le_def)
  show ?thesis
    using conv cap uncapped low voltage_def raw_def battery_def by blast
qed

theorem multi_zig_sw_battery_capped_witness:
  "multi_zig_sw_battery_convert (example_report [''batteryVoltage'' \<mapsto> Finite 10]) =
     Some [''battery'' \<mapsto> JNum (Finite (- 150)), ''voltage'' \<mapsto> JNum (Finite 1000)]"
proof -
  let ?msg = "example_report [''batteryVoltage'' \<mapsto> Finite 10]"
  from multi_zig_sw_battery_capped [of ?msg] obtain battery voltage where
    conv: "multi_zig_sw_battery_convert ?msg =
       Some [''battery'' \<mapsto> JNum battery, ''voltage'' \<mapsto> JNum voltage]"
    and v: "voltage = js_mul (ToNumber (attrs (data ?msg) ''batteryVoltage'')) (Finite 100)"
    and low: "\<forall>r. attrs (data ?msg) ''batteryVoltage'' = Some (Finite r) \<longrightarrow> r \<le> 30 \<longrightarrow>
            battery = Finite ((r * 100 - 2200) / 8)"
    by blast
  have a: "attrs (data ?msg) ''batteryVoltage'' = Some (Finite 10)"
    by (simp add: example_report_def example_data_def)
  from low a have "battery = Finite ((10 * 100 - 2200) / 8)"
    by simp
  then have b: "battery = Finite (- 150)"
    by simp
  have "voltage = Finite 1000"
    using v a by (simp add: ToNumber_def)
  with conv b show ?thesis
    by simp
qed

subsection \<open>Device metadata options\<close>

lemma js_get_after_js_set:
  assumes "key \<noteq> ''__proto__''" and "js_set own proto key v = (own', proto')"
  shows "js_get own' proto' key = v"
  using assms by (auto simp: js_set_def js_get_def)

lemma js_get_never_set:
  assumes "own key = None" and "key \<notin> set object_prototype_names"
  shows "js_get own ObjectPrototype key = JUndefined"
proof -
  have "''__proto__'' \<in> set object_prototype_names"
    by (simp add: object_prototype_names_def)
  with assms(2) have "key \<noteq> ''__proto__''"
    by auto
  with assms show ?thesis
    by (simp add: js_get_def inherited_member_def object_prototype_member_def)
qed

text \<open>
  Claim C10, as stated, fails at the names that the metadata object inherits. On a device
  that is not a dummy device and has fresh metadata, setting \<open>__proto__\<close> to the string
  x stores nothing, and reading it back gives \<open>Object.prototype\<close>, not x; and the key
  \<open>constructor\<close>, never set, reads as a function, not as the default.
\<close>

theorem ptvo_meta_option_inherited_names:
  "\<not> isDummyDevice example_device
   \<and> meta example_device ''constructor'' = None
   \<and> ptvoSetMetaOption (Some example_device) (Some ''__proto__'') (JStr ''x'') = Some example_device
   \<and> ptvoGetMetaOption example_device ''__proto__'' (JStr ''d'') = JBuiltin ''__proto__''
   \<and> ptvoGetMetaOption example_device ''constructor'' (JStr ''d'') = JBuiltin ''constructor''"
  by (simp add: example_device_def ptvoSetMetaOption_def ptvoGetMetaOption_def js_set_def
      js_get_def inherits_proto_accessor_def inherited_member_def object_prototype_member_def
      object_prototype_names_def)

text \<open>
  Claim C10, amended. On metadata whose prototype is \<open>Object.prototype\<close>, null or a
  plain object: for a device that is not a dummy device, a key that is not null and is not
  \<open>__proto__\<close>, and a value that is not undefined, \<open>ptvoGetMetaOption\<close> after
  \<open>ptvoSetMetaOption\<close> returns the value whatever the default is; and for a key whose
  stored value reads as undefined, \<open>ptvoGetMetaOption\<close> returns the default. On
  metadata whose prototype has not been replaced, a key reads as undefined when it was
  never set and is not a name that every object inherits.
\<close>

theorem ptvo_meta_option_roundtrip:
  "((\<forall>name. meta_prototype d \<noteq> BuiltinValue name) \<longrightarrow>
      \<not> isDummyDevice d \<longrightarrow> v \<noteq> JUndefined \<longrightarrow> k \<noteq> ''__proto__'' \<longrightarrow>
      (\<exists>d'. ptvoSetMetaOption (Some d) (Some k) v = Some d'
         \<and> ptvoGetMetaOption d' k dflt = v))
   \<and> ((\<forall>name. meta_prototype d \<noteq> BuiltinValue name) \<longrightarrow>
        js_get (meta d) (meta_prototype d) k = JUndefined \<longrightarrow> ptvoGetMetaOption d k dflt = dflt)
   \<and> (meta d k = None \<longrightarrow> meta_prototype d = ObjectPrototype \<longrightarrow>
        k \<notin> set object_prototype_names \<longrightarrow> ptvoGetMetaOption d k dflt = dflt)"
proof -
  have roundtrip: "\<exists>d'. ptvoSetMetaOption (Some d) (Some k) v = Some d'
         \<and> ptvoGetMetaOption d' k dflt = v"
    if "\<not> isDummyDevice d" and "v \<noteq> JUndefined" and "k \<noteq> ''__proto__''"
  proof -
    obtain own proto where s: "js_set (meta d) (meta_prototype d) k v = (own, proto)"
      by (cases "js_set (meta d) (meta_prototype d) k v")
    from js_get_after_js_set [OF that(3) s] have "js_get own proto k = v" .
    with s that(1,2) show ?thesis
      by (simp add: ptvoSetMetaOption_def ptvoGetMetaOption_def Let_def)
  qed
  have undefined: "ptvoGetMetaOption d k dflt = dflt"
    if "js_get (meta d) (meta_prototype d) k = JUndefined"
    using that by (simp add: ptvoGetMetaOption_def Let_def)
  have never_set: "ptvoGetMetaOption d k dflt = dflt"
    if "meta d k = None" and "meta_prototype d = ObjectPrototype"
      and "k \<notin> set object_prototype_names"
    using js_get_never_set [of "meta d" k] that by (simp add: ptvoGetMetaOption_def Let_def)
  from roundtrip undefined never_set show ?thesis
    by blast
qed

theorem ptvo_meta_option_roundtrip_witness:
  "\<not> isDummyDevice example_device \<and> JStr ''1W'' \<noteq> JUndefined
   \<and> (\<exists>d'. ptvoSetMetaOption (Some example_device) (Some ''device_config'') (JStr ''1W'') = Some d'
         \<and> ptvoGetMetaOption d' ''device_config'' (JStr '''') = JStr ''1W'')
   \<and> (\<exists>d'. ptvoSetMetaOption (Some example_device) (Some ''constructor'') (JStr ''1W'') = Some d'
         \<and> ptvoGetMetaOption d' ''constructor'' (JStr '''') = JStr ''1W'')
   \<and> meta example_device ''other'' = None
   \<and> ptvoGetMetaOption example_device ''other'' (JNum (Finite 5)) = JNum (Finite 5)"
proof -
  have nd: "\<not> isDummyDevice example_device"
    by (simp add: example_device_def)
  have un: "meta example_device ''other'' = None"
    and pr: "meta_prototype example_device = ObjectPrototype"
    by (simp_all add: example_device_def)
  have nm: "''other'' \<notin> set object_prototype_names"
    by (simp add: object_prototype_names_def)
  from ptvo_meta_option_roundtrip [of example_device "JStr ''1W''" "''device_config''" "JStr ''''"]
    nd pr
  have rt: "\<exists>d'. ptvoSetMetaOption (Some example_device) (Some ''device_config'') (JStr ''1W'') = Some d'
         \<and> ptvoGetMetaOption d' ''device_config'' (JStr '''') = JStr ''1W''"
    by simp
  from ptvo_meta_option_roundtrip [of example_device "JStr ''1W''" "''constructor''" "JStr ''''"]
    nd pr
  have rc: "\<exists>d'. ptvoSetMetaOption (Some example_device) (Some ''constructor'') (JStr ''1W'') = Some d'
         \<and> ptvoGetMetaOption d' ''constructor'' (JStr '''') = JStr ''1W''"
    by simp
  from ptvo_meta_option_roundtrip [of example_device _ "''other''" "JNum (Finite 5)"] un pr nm
  have df: "ptvoGetMetaOption example_device ''other'' (JNum (Finite 5)) = JNum (Finite 5)"
    by simp
  from nd un rt rc df show ?thesis
    by simp
qed

subsection \<open>fzLocal.humidity2, fzLocal.multi_zig_sw_switch_buttons and the endpoint map\<close>

text \<open>
  Claim C4. \<open>fzLocal.humidity2\<close> publishes a humidity property only when the computed
  humidity (measuredValue divided by 100, then calibrated and rounded) lies between 0
  and 100, both included; for every other message it returns nothing. When it does
  publish, the property is named humidity (with the endpoint postfix on a multi-endpoint
  definition) and holds the computed value.
\<close>

theorem humidity2_publishes_only_in_range:
  "(let humidity = calibrateAndPrecisionRoundOptions lib
        (js_div (Number_parseFloat (attrs (data msg) ''measuredValue'')) (Finite 100)) opts ''humidity''
    in (humidity2_convert lib model msg opts mta \<noteq> None \<longrightarrow>
          js_ge humidity (Finite 0) \<and> js_le humidity (Finite 100))
       \<and> (\<not> (js_ge humidity (Finite 0) \<and> js_le humidity (Finite 100)) \<longrightarrow>
            humidity2_convert lib model msg opts mta = None)
       \<and> (js_ge humidity (Finite 0) \<and> js_le humidity (Finite 100) \<longrightarrow>
            humidity2_convert lib model msg opts mta =
              Some [(if multiEndpoint model then postfixWithEndpointName lib ''humidity'' msg model mta
                     else ''humidity'') \<mapsto> JNum humidity]))"
  by (simp add: humidity2_convert_def Let_def)

theorem humidity2_publishes_only_in_range_witness:
  "humidity2_convert example_library plain_model
      (example_report [''measuredValue'' \<mapsto> Finite 4550]) () () =
     Some [''humidity'' \<mapsto> JNum (Finite (91 / 2))]
   \<and> humidity2_convert example_library plain_model
      (example_report [''measuredValue'' \<mapsto> Finite 10001]) () () = None
   \<and> humidity2_convert example_library plain_model (example_report Map.empty) () () = None"
proof -
  have a: "attrs (data (example_report m)) k = m k" for m k
    by (simp add: example_report_def example_data_def)
  have c: "calibrateAndPrecisionRoundOptions example_library v opts n = v" for v opts n
    by (simp add: example_library_def)
  have p: "\<not> multiEndpoint plain_model"
    by (simp add: plain_model_def)
  from humidity2_publishes_only_in_range
    [of example_library "example_report [''measuredValue'' \<mapsto> Finite 4550]" "()" plain_model "()"]
  have 1: "humidity2_convert example_library plain_model
      (example_report [''measuredValue'' \<mapsto> Finite 4550]) () () =
     Some [''humidity'' \<mapsto> JNum (Finite (91 / 2))]"
    by (simp add: a c p Number_parseFloat_def js_le_def Let_def)
  from humidity2_publishes_only_in_range
    [of example_library "example_report [''measuredValue'' \<mapsto> Finite 10001]" "()" plain_model "()"]
  have 2: "humidity2_convert example_library plain_model
      (example_report [''measuredValue'' \<mapsto> Finite 10001]) () () = None"
    by (simp add: a c p Number_parseFloat_def js_le_def Let_def)
  from humidity2_publishes_only_in_range
    [of example_library "example_report Map.empty" "()" plain_model "()"]
  have 3: "humidity2_convert example_library plain_model (example_report Map.empty) () () = None"
    by (simp add: a c p Number_parseFloat_def js_le_def Let_def)
  from 1 2 3 show ?thesis
    by simp
qed

lemma not_an_exposed_action: "b @ ''_undefined'' \<notin> set multi_zig_sw_exposed_actions"
proof
  assume "b @ ''_undefined'' \<in> set multi_zig_sw_exposed_actions"
  then have "length (b @ ''_undefined'') \<le> 7"
    by (auto simp: multi_zig_sw_exposed_actions_def)
  then show False
    by simp
qed

text \<open>
  Claim C9. For a genMultistateInput report whose presentValue is none of 0, 1, 2, 3, 4
  (a missing presentValue included), \<open>fzLocal.multi_zig_sw_switch_buttons\<close> does not
  skip the message: it returns an action whose text is the button name followed by
  \<open>_undefined\<close>, which is none of the action values that the definition exposes.
\<close>

theorem multi_zig_sw_switch_buttons_undefined_action:
  assumes "\<forall>r \<in> {0, 1, 2, 3, 4}. attrs (data msg) ''presentValue'' \<noteq> Some (Finite r)"
  shows "\<exists>text. multi_zig_sw_switch_buttons_convert lib model msg = Some [''action'' \<mapsto> JStr text]
     \<and> text = template_str (getKey lib (model_endpoints model (device msg))
                              (Some (Finite (of_nat (ID (endpoint msg)))))) @ ''_undefined''
     \<and> text \<notin> set multi_zig_sw_exposed_actions"
proof -
  have "js_index actionLookup (attrs (data msg) ''presentValue'') = None"
  proof (cases "attrs (data msg) ''presentValue''")
    case None
    then show ?thesis by (simp add: js_index_def)
  next
    case (Some n)
    with assms show ?thesis
      by (cases n) (auto simp: js_index_def actionLookup_def)
  qed
  then show ?thesis
    by (simp add: multi_zig_sw_switch_buttons_convert_def Let_def template_str_def
        not_an_exposed_action)
qed

theorem multi_zig_sw_switch_buttons_undefined_action_witness:
  "multi_zig_sw_switch_buttons_convert example_library multi_zig_sw_model
     (example_report [''presentValue'' \<mapsto> Finite 5]) =
   Some [''action'' \<mapsto> JStr ''button_1_undefined'']"
proof -
  let ?msg = "example_report [''presentValue'' \<mapsto> Finite 5]"
  have h: "\<forall>r \<in> {0, 1, 2, 3, 4}. attrs (data ?msg) ''presentValue'' \<noteq> Some (Finite r)"
    by (simp add: example_report_def example_data_def)
  have k: "getKey example_library (model_endpoints multi_zig_sw_model (device ?msg))
             (Some (Finite (of_nat (ID (endpoint ?msg))))) = Some ''button_1''"
    by (simp add: example_library_def example_report_def example_endpoint_def)
  from multi_zig_sw_switch_buttons_undefined_action [OF h, of example_library multi_zig_sw_model]
  show ?thesis
    by (simp add: k template_str_def)
qed

lemma show_nat_nonempty: "show_nat n \<noteq> []"
  by (subst show_nat.simps) simp

lemma digit_inj: "a < 10 \<Longrightarrow> b < 10 \<Longrightarrow> ''0123456789'' ! a = ''0123456789'' ! b \<Longrightarrow> a = b"
proof -
  assume h: "a < 10" "b < 10" "''0123456789'' ! a = ''0123456789'' ! b"
  have "distinct ''0123456789''" by simp
  with h show ?thesis
    by (simp add: nth_eq_iff_index_eq)
qed

lemma show_nat_inj: "show_nat a = show_nat b \<Longrightarrow> a = b"
proof (induction a arbitrary: b rule: show_nat.induct)
  case (1 n)
  show ?case
  proof (cases "n < 10")
    case True
    then have sn: "show_nat n = [''0123456789'' ! n]"
      by (subst show_nat.simps) simp
    show ?thesis
    proof (cases "b < 10")
      case True
      then have "show_nat b = [''0123456789'' ! b]"
        by (subst show_nat.simps) simp
      with sn "1.prems" have "''0123456789'' ! n = ''0123456789'' ! b" by simp
      with \<open>n < 10\<close> True show ?thesis by (rule digit_inj)
    next
      case False
      then have "show_nat b = show_nat (b div 10) @ [''0123456789'' ! (b mod 10)]"
        by (subst show_nat.simps) simp
      with sn "1.prems" show_nat_nonempty [of "b div 10"] show ?thesis
        by (cases "show_nat (b div 10)") auto
    qed
  next
    case False
    then have sn: "show_nat n = show_nat (n div 10) @ [''0123456789'' ! (n mod 10)]"
      by (subst show_nat.simps) simp
    show ?thesis
    proof (cases "b < 10")
      case True
      then have "show_nat b = [''0123456789'' ! b]"
        by (subst show_nat.simps) simp
      with sn "1.prems" show_nat_nonempty [of "n div 10"] show ?thesis
        by (cases "show_nat (n div 10)") auto
    next
      case bF: False
      then have "show_nat b = show_nat (b div 10) @ [''0123456789'' ! (b mod 10)]"
        by (subst show_nat.simps) simp
      with sn "1.prems" have e1: "show_nat (n div 10) = show_nat (b div 10)"
        and e2: "''0123456789'' ! (n mod 10) = ''0123456789'' ! (b mod 10)"
        by auto
      from "1.IH" [OF False e1] have d: "n div 10 = b div 10" .
      have "n mod 10 = b mod 10"
        by (rule digit_inj [OF _ _ e2]) simp_all
      with d show ?thesis
        by (metis div_mult_mod_eq)
    qed
  qed
qed

lemma epName_inj: "epName a = epName b \<Longrightarrow> a = b"
  by (simp add: epName_def show_nat_inj)

lemma epName_eq_iff: "epName a = epName b \<longleftrightarrow> a = b"
  by (auto dest: epName_inj)

lemma epName_not_action: "epName n \<noteq> ''action''"
  by (simp add: epName_def)

lemma named_set_named:
  "named (set_named k v el) k' = (if k' = k then Some v else named el k')"
  by (simp add: set_named_def)

lemma array_length_set_named: "array_length (set_named k v el) = array_length el"
  by (simp add: set_named_def)

lemma device_endpoints_loop_named:
  "named (device_endpoints_loop eps el) (epName n) =
     (if n \<in> ID ` set eps then Some n else named el (epName n))"
  by (induction eps arbitrary: el) (auto simp: Let_def named_set_named epName_eq_iff)

lemma device_endpoints_loop_length:
  "array_length (device_endpoints_loop eps el) = array_length el"
  by (induction eps arbitrary: el) (simp_all add: Let_def array_length_set_named)

lemma fallback_loop_named:
  "named (fallback_loop i el) (epName n) =
     (if i \<le> n \<and> n \<le> 8 then Some n else named el (epName n))"
proof (induction i el rule: fallback_loop.induct)
  case (1 epId endpointList)
  show ?case
  proof (cases "epId \<le> 8")
    case True
    then have "fallback_loop epId endpointList =
        fallback_loop (epId + 1) (set_named (epName epId) epId endpointList)"
      by (subst fallback_loop.simps) simp
    with "1.IH" [OF True] True show ?thesis
      by (auto simp: named_set_named epName_eq_iff)
  next
    case False
    then have "fallback_loop epId endpointList = endpointList"
      by (subst fallback_loop.simps) simp
    with False show ?thesis by auto
  qed
qed

lemma device_config_loop_named:
  "named (device_config_loop lines el) (epName n) =
     (if \<exists>line \<in> set lines. \<exists>digits. match_hex_prefix line = Some digits \<and> parseInt16 digits = n
      then Some n else named el (epName n))"
proof (induction lines arbitrary: el)
  case Nil
  show ?case by simp
next
  case (Cons epConfig rest)
  show ?case
  proof (cases "match_hex_prefix epConfig")
    case None
    with Cons.IH [of el] show ?thesis by simp
  next
    case (Some matched)
    with Cons.IH [of "set_named (epName (parseInt16 matched)) (parseInt16 matched) el"]
    show ?thesis
      by (auto simp: Let_def named_set_named epName_eq_iff)
  qed
qed

text \<open>
  Claim C1. Whenever the stored device configuration, as \<open>ptvoGetMetaOption\<close> reads
  it, is a string (it reads as the empty string when it is absent or the device is a dummy
  device), the endpoint function of ptvo.switch returns a map that holds
  \<open>l<ID>\<close> with value ID for every endpoint of the device, and \<open>action\<close> with
  value 1. When the configuration is not empty the map also holds, for every line of it
  that starts with upper-case hexadecimal digits, \<open>l<epId>\<close> with value epId, the
  number those digits denote in base 16.
\<close>

theorem ptvo_switch_endpoint_entries:
  assumes "ptvoGetMetaOption dev ''device_config'' (JStr '''') = JStr config"
  shows "\<exists>el. ptvo_switch_endpoint dev = Inr el
     \<and> (\<forall>ep \<in> set (endpoints dev). named el (epName (ID ep)) = Some (ID ep))
     \<and> named el ''action'' = Some 1
     \<and> (config \<noteq> '''' \<longrightarrow>
          (\<forall>line \<in> set (split_lines config). \<forall>digits. match_hex_prefix line = Some digits \<longrightarrow>
             named el (epName (parseInt16 digits)) = Some (parseInt16 digits)))"
proof (cases "config = ''''")
  case True
  let ?el = "set_named ''action'' 1
      (fallback_loop 1 (device_endpoints_loop (endpoints dev) \<lparr>array_length = 0, named = Map.empty\<rparr>))"
  have r: "ptvo_switch_endpoint dev = Inr ?el"
    using assms True by (simp add: ptvo_switch_endpoint_def Let_def device_endpoints_loop_length)
  have e: "\<forall>ep \<in> set (endpoints dev). named ?el (epName (ID ep)) = Some (ID ep)"
    by (simp add: named_set_named epName_not_action fallback_loop_named device_endpoints_loop_named)
  have a: "named ?el ''action'' = Some 1"
    by (simp add: named_set_named)
  from r e a True show ?thesis by simp
next
  case False
  let ?el = "set_named ''action'' 1
      (device_config_loop (split_lines config)
         (device_endpoints_loop (endpoints dev) \<lparr>array_length = 0, named = Map.empty\<rparr>))"
  have r: "ptvo_switch_endpoint dev = Inr ?el"
    using assms False by (simp add: ptvo_switch_endpoint_def Let_def)
  have e: "\<forall>ep \<in> set (endpoints dev). named ?el (epName (ID ep)) = Some (ID ep)"
    by (simp add: named_set_named epName_not_action device_config_loop_named device_endpoints_loop_named)
  have a: "named ?el ''action'' = Some 1"
    by (simp add: named_set_named)
  have c: "\<forall>line \<in> set (split_lines config). \<forall>digits. match_hex_prefix line = Some digits \<longrightarrow>
             named ?el (epName (parseInt16 digits)) = Some (parseInt16 digits)"
    by (auto simp: named_set_named epName_not_action device_config_loop_named)
  from r e a c show ?thesis by simp
qed

theorem ptvo_switch_endpoint_entries_witness:
  "\<exists>el. ptvo_switch_endpoint configured_device = Inr el
     \<and> named el ''l1'' = Some 1 \<and> named el ''l2'' = Some 2
     \<and> named el ''l160'' = Some 160 \<and> named el ''action'' = Some 1"
proof -
  let ?config = "''1W'' @ [CHR 0x0D, CHR 0x0A] @ ''A0R,lx'' @ [CHR 0x0A] @ ''foo''"
  have h: "ptvoGetMetaOption configured_device ''device_config'' (JStr '''') = JStr ?config"
    by (simp add: configured_device_def example_device_def ptvoGetMetaOption_def js_get_def)
  from ptvo_switch_endpoint_entries [OF h] obtain el where
    r: "ptvo_switch_endpoint configured_device = Inr el"
    and e: "\<forall>ep \<in> set (endpoints configured_device). named el (epName (ID ep)) = Some (ID ep)"
    and a: "named el ''action'' = Some 1"
    and c: "\<forall>line \<in> set (split_lines ?config). \<forall>digits. match_hex_prefix line = Some digits \<longrightarrow>
             named el (epName (parseInt16 digits)) = Some (parseInt16 digits)"
    by auto
  have eps: "endpoints configured_device = [example_endpoint 1, example_endpoint 2]"
    by (simp add: configured_device_def example_device_def)
  have n1: "epName (Suc 0) = ''l1''" and n2: "epName 2 = ''l2''" and n160: "epName 160 = ''l160''"
    by (simp_all add: epName_def show_nat.simps)
  from e eps have l1: "named el ''l1'' = Some 1" and l2: "named el ''l2'' = Some 2"
    by (simp_all add: example_endpoint_def n1 n2)
  have "''A0R,lx'' \<in> set (split_lines ?config)"
    by (simp add: is_newline_def)
  moreover have "match_hex_prefix ''A0R,lx'' = Some ''A0''"
    by (simp add: match_hex_prefix_def is_hex_digit_def)
  moreover have "parseInt16 ''A0'' = 160"
    by (simp add: parseInt16_def hex_value_def)
  ultimately have "named el (epName 160) = Some 160"
    using c by fastforce
  with r l1 l2 a n160 show ?thesis
    by simp
qed

subsection \<open>tzLocal.multi_zig_sw_switch_type\<close>











subsection \<open>tzLocal.fan_mode\<close>

text \<open>
  Claim C8. \<open>tzLocal.fan_mode.convertSet\<close> does what \<open>tz.fan_mode.convertSet\<close> does
  with the value \<open>low\<close> for every string whose lower-case form is \<open>on\<close>, what it does
  with the unchanged value for every other string, and throws for every value that is not
  a string.
\<close>

theorem fan_mode_convertSet_refines:
  "(\<forall>s. value = JStr s \<and> toLowerCase s = ''on'' \<longrightarrow>
        fan_mode_convertSet tz_fan_mode entity key value mta =
          Inr (tz_fan_mode entity key (JStr ''low'') mta))
   \<and> (\<forall>s. value = JStr s \<and> toLowerCase s \<noteq> ''on'' \<longrightarrow>
        fan_mode_convertSet tz_fan_mode entity key value mta =
          Inr (tz_fan_mode entity key value mta))
   \<and> ((\<forall>s. value \<noteq> JStr s) \<longrightarrow>
        (\<exists>err. fan_mode_convertSet tz_fan_mode entity key value mta = Inl err))"
  by (cases "value") (simp_all add: fan_mode_convertSet_def assertString_def Let_def)

theorem fan_mode_convertSet_refines_witness:
  "fan_mode_convertSet (\<lambda>entity key value mta. (key, value)) () ''fan_mode'' (JStr ''On'') ()
     = Inr (''fan_mode'', JStr ''low'')
   \<and> fan_mode_convertSet (\<lambda>entity key value mta. (key, value)) () ''fan_mode'' (JStr ''high'') ()
     = Inr (''fan_mode'', JStr ''high'')
   \<and> (\<exists>err. fan_mode_convertSet (\<lambda>entity key value mta. (key, value)) () ''fan_mode''
              (JNum (Finite 1)) () = Inl err)"
proof -
  let ?tz = "\<lambda>(entity :: unit) (key :: string) (value :: jsval) (mta :: unit). (key, value)"
  have on: "toLowerCase ''On'' = ''on''" and high: "toLowerCase ''high'' \<noteq> ''on''"
    by (simp_all add: toLowerCase_def lower_char_def)
  from fan_mode_convertSet_refines [of "JStr ''On''" ?tz "()" "''fan_mode''" "()"] on
  have 1: "fan_mode_convertSet ?tz () ''fan_mode'' (JStr ''On'') () = Inr (''fan_mode'', JStr ''low'')"
    by simp
  from fan_mode_convertSet_refines [of "JStr ''high''" ?tz "()" "''fan_mode''" "()"] high
  have 2: "fan_mode_convertSet ?tz () ''fan_mode'' (JStr ''high'') () = Inr (''fan_mode'', JStr ''high'')"
    by simp
  from fan_mode_convertSet_refines [of "JNum (Finite 1)" ?tz "()" "''fan_mode''" "()"]
  have 3: "\<exists>err. fan_mode_convertSet ?tz () ''fan_mode'' (JNum (Finite 1)) () = Inl err"
    by simp
  from 1 2 3 show ?thesis
    by simp
qed

subsection \<open>fzLocal.schneider_powertag\<close>

lemma when_defined_apply:
  "when_defined attr key f ret k =
     (if k = key then (case attr of None \<Rightarrow> ret k | Some v \<Rightarrow> Some (JNum (f v))) else ret k)"
  by (simp add: when_defined_def split: option.splits)

lemma powertag_metering_energy:
  "attr ''currentSummDelivered'' = Some v \<Longrightarrow>
   powertag_metering attr ret ''energy'' = Some (JNum (js_div v (ToNumber (attr ''divisor''))))"
  by (simp add: powertag_metering_def Let_def when_defined_apply)

lemma powertag_electrical_power:
  "attr ''totalActivePower'' = Some p \<Longrightarrow>
   powertag_electrical attr ret ''power'' =
     Some (JNum (js_div (js_mul p (Finite 1000)) (ToNumber (attr ''powerDivisor''))))"
  by (simp add: powertag_electrical_def Let_def when_defined_apply)

text \<open>
  Claim C2. For a green-power commandNotification with commandID 0xa1 that the duplicate
  check lets through, \<open>fzLocal.schneider_powertag\<close> returns its result object unless
  the acknowledgement that the frame asks for fails. For a frame of cluster 1794
  (seMetering) that carries currentSummDelivered the object holds energy =
  currentSummDelivered / divisor, the divisor being the one of the same frame; for a frame
  of cluster 2820 (haElectricalMeasurement) that carries totalActivePower it holds power =
  (totalActivePower * 1000) / powerDivisor.
\<close>

theorem schneider_powertag_energy_power:
  assumes "msg_type msg = ''commandNotification''"
    and "dedup store msg model (frameCounter (data msg))
           (ieeeAddr (device msg) @ ''_'' @ show_nat (commandID (data msg))) = (False, store')"
    and "commandID (data msg) = 0xa1"
  shows "\<exists>ret. schneider_powertag_convert dedup io store model msg =
           (store',
            case (if and (options (data msg)) (push_bit 11 1) \<noteq> 0 then powertag_ack io msg else None) of
              None \<Rightarrow> Inr (Some ret)
            | Some err \<Rightarrow> Inl err)
     \<and> (\<forall>v. clusterID (commandFrame (data msg)) = 1794
            \<and> attributes (commandFrame (data msg)) ''currentSummDelivered'' = Some v \<longrightarrow>
          ret ''energy'' =
            Some (JNum (js_div v (ToNumber (attributes (commandFrame (data msg)) ''divisor'')))))
     \<and> (\<forall>p. clusterID (commandFrame (data msg)) = 2820
            \<and> attributes (commandFrame (data msg)) ''totalActivePower'' = Some p \<longrightarrow>
          ret ''power'' =
            Some (JNum (js_div (js_mul p (Finite 1000))
                    (ToNumber (attributes (commandFrame (data msg)) ''powerDivisor'')))))"
proof -
  let ?ret = "powertag_ret (data msg)"
  have run: "schneider_powertag_convert dedup io store model msg =
           (store',
            case (if and (options (data msg)) (push_bit 11 1) \<noteq> 0 then powertag_ack io msg else None) of
              None \<Rightarrow> Inr (Some ?ret)
            | Some err \<Rightarrow> Inl err)"
    using assms(1,2) by (simp add: schneider_powertag_convert_def Let_def split: option.splits)
  have energy: "?ret ''energy'' =
      Some (JNum (js_div v (ToNumber (attributes (commandFrame (data msg)) ''divisor''))))"
    if "clusterID (commandFrame (data msg)) = 1794"
      and "attributes (commandFrame (data msg)) ''currentSummDelivered'' = Some v" for v
    using that assms(3) by (simp add: powertag_ret_def Let_def powertag_metering_energy)
  have power: "?ret ''power'' =
      Some (JNum (js_div (js_mul p (Finite 1000))
              (ToNumber (attributes (commandFrame (data msg)) ''powerDivisor''))))"
    if "clusterID (commandFrame (data msg)) = 2820"
      and "attributes (commandFrame (data msg)) ''totalActivePower'' = Some p" for p
    using that assms(3) by (simp add: powertag_ret_def Let_def powertag_electrical_power)
  from run energy power show ?thesis
    by blast
qed

lemma first_sighting:
  "hasAlreadyProcessedMessage empty_store msg plain_model i key = (False, empty_store(key := [i]))"
  by (simp add: hasAlreadyProcessedMessage_def empty_store_def plain_model_def)

theorem schneider_powertag_energy_power_witness:
  "(\<exists>ret store'. schneider_powertag_convert hasAlreadyProcessedMessage quiet_io empty_store
                    plain_model metering_notification = (store', Inr (Some ret))
        \<and> ret ''energy'' = Some (JNum (Finite (15432 / 125))))
   \<and> (\<exists>ret store'. schneider_powertag_convert hasAlreadyProcessedMessage quiet_io empty_store
                    plain_model electrical_notification = (store', Inr (Some ret))
        \<and> ret ''power'' = Some (JNum (Finite 5)))"
proof -
  have m: "msg_type metering_notification = ''commandNotification''"
    "commandID (data metering_notification) = 0xa1"
    "clusterID (commandFrame (data metering_notification)) = 1794"
    "attributes (commandFrame (data metering_notification)) ''currentSummDelivered'' = Some (Finite 123456)"
    "attributes (commandFrame (data metering_notification)) ''divisor'' = Some (Finite 1000)"
    "and (options (data metering_notification)) (push_bit 11 1) \<noteq> 0"
    by (simp_all add: metering_notification_def powertag_notification_def)
  have ack: "powertag_ack quiet_io metering_notification = None"
    by (simp add: powertag_ack_def quiet_io_def)
  from schneider_powertag_energy_power
    [where dedup = hasAlreadyProcessedMessage and msg = metering_notification
       and store = empty_store and model = plain_model and io = quiet_io,
     OF m(1) first_sighting m(2)] m(3,4,5,6) ack
  have 1: "\<exists>ret store'. schneider_powertag_convert hasAlreadyProcessedMessage quiet_io empty_store
                    plain_model metering_notification = (store', Inr (Some ret))
        \<and> ret ''energy'' = Some (JNum (Finite (15432 / 125)))"
    by (auto simp: ToNumber_def)
  have e: "msg_type electrical_notification = ''commandNotification''"
    "commandID (data electrical_notification) = 0xa1"
    "clusterID (commandFrame (data electrical_notification)) = 2820"
    "attributes (commandFrame (data electrical_notification)) ''totalActivePower'' = Some (Finite 5)"
    "attributes (commandFrame (data electrical_notification)) ''powerDivisor'' = Some (Finite 1000)"
    "and (options (data electrical_notification)) (push_bit 11 1) = 0"
    by (simp_all add: electrical_notification_def powertag_notification_def)
  from schneider_powertag_energy_power
    [where dedup = hasAlreadyProcessedMessage and msg = electrical_notification
       and store = empty_store and model = plain_model and io = quiet_io,
     OF e(1) first_sighting e(2)] e(3,4,5,6)
  have 2: "\<exists>ret store'. schneider_powertag_convert hasAlreadyProcessedMessage quiet_io empty_store
                    plain_model electrical_notification = (store', Inr (Some ret))
        \<and> ret ''power'' = Some (JNum (Finite 5))"
    by (auto simp: ToNumber_def)
  from 1 2 show ?thesis
    by simp
qed

lemma powertag_other_type:
  assumes "msg_type msg \<noteq> ''commandNotification''"
  shows "schneider_powertag_convert dedup io store model msg = (store, Inr None)"
  using assms by (simp add: schneider_powertag_convert_def)

lemma powertag_recorded:
  assumes "msg_type msg = ''commandNotification''"
    and "\<not> publishDuplicateTransaction model"
    and "frameCounter (data msg)
           \<in> set (seen (ieeeAddr (device msg) @ ''_'' @ show_nat (commandID (data msg))))"
  shows "schneider_powertag_convert hasAlreadyProcessedMessage io seen model msg = (seen, Inr None)"
  using assms
  by (simp add: schneider_powertag_convert_def Let_def hasAlreadyProcessedMessage_def)

lemma powertag_fresh:
  assumes "msg_type msg = ''commandNotification''"
    and "\<not> publishDuplicateTransaction model"
    and "frameCounter (data msg)
           \<notin> set (seen (ieeeAddr (device msg) @ ''_'' @ show_nat (commandID (data msg))))"
  shows "fst (schneider_powertag_convert hasAlreadyProcessedMessage io seen model msg) =
           seen(ieeeAddr (device msg) @ ''_'' @ show_nat (commandID (data msg)) :=
                  take 5 (frameCounter (data msg)
                    # seen (ieeeAddr (device msg) @ ''_'' @ show_nat (commandID (data msg)))))"
    and "snd (schneider_powertag_convert hasAlreadyProcessedMessage io seen model msg) \<noteq> Inr None"
  using assms
  by (simp_all add: schneider_powertag_convert_def Let_def hasAlreadyProcessedMessage_def
      split: option.splits)

lemma powertag_publish_duplicates:
  assumes "msg_type msg = ''commandNotification''"
    and "publishDuplicateTransaction model"
  shows "fst (schneider_powertag_convert hasAlreadyProcessedMessage io seen model msg) = seen"
    and "snd (schneider_powertag_convert hasAlreadyProcessedMessage io seen model msg) \<noteq> Inr None"
  using assms
  by (simp_all add: schneider_powertag_convert_def Let_def hasAlreadyProcessedMessage_def
      split: option.splits)

lemma metering_frame_key:
  "ieeeAddr (device (metering_frame n)) @ ''_'' @ show_nat (commandID (data (metering_frame n)))
     = ''0x00000000e1234567_161''"
  by (simp add: metering_frame_def powertag_notification_def example_device_def show_nat.simps)

lemma metering_frame_facts:
  "msg_type (metering_frame n) = ''commandNotification''"
  "frameCounter (data (metering_frame n)) = n"
  "\<not> publishDuplicateTransaction plain_model"
  by (simp_all add: metering_frame_def powertag_notification_def plain_model_def)

lemma metering_frame_step:
  "fst (schneider_powertag_convert hasAlreadyProcessedMessage quiet_io seen plain_model
          (metering_frame n)) =
     (if n \<in> set (seen ''0x00000000e1234567_161'') then seen
      else seen(''0x00000000e1234567_161'' := take 5 (n # seen ''0x00000000e1234567_161'')))"
proof (cases "n \<in> set (seen ''0x00000000e1234567_161'')")
  case True
  with powertag_recorded
    [where msg = "metering_frame n" and model = plain_model and seen = seen and io = quiet_io,
     OF metering_frame_facts(1,3), unfolded metering_frame_key metering_frame_facts(2)]
  show ?thesis
    by simp
next
  case False
  with powertag_fresh(1)
    [where msg = "metering_frame n" and model = plain_model and seen = seen and io = quiet_io,
     OF metering_frame_facts(1,3), unfolded metering_frame_key metering_frame_facts(2)]
  show ?thesis
    by simp
qed

lemma six_frames_later:
  "process_frames [7, 8, 9, 10, 11, 12] empty_store ''0x00000000e1234567_161'' = [12, 11, 10, 9, 8]"
  by (simp add: process_frames.simps metering_frame_step empty_store_def)

text \<open>
  Claim C6, as stated, fails for a frame that was processed more than five frames ago:
  frame 7 is converted, frames 8 to 12 of the same device and command follow, and frame 7,
  already processed, is converted again.
\<close>

theorem schneider_powertag_forgets:
  "snd (schneider_powertag_convert hasAlreadyProcessedMessage quiet_io empty_store plain_model
          (metering_frame 7)) \<noteq> Inr None
   \<and> snd (schneider_powertag_convert hasAlreadyProcessedMessage quiet_io
            (process_frames [7, 8, 9, 10, 11, 12] empty_store) plain_model (metering_frame 7))
       \<noteq> Inr None"
proof -
  have converted: "snd (schneider_powertag_convert hasAlreadyProcessedMessage quiet_io seen plain_model
          (metering_frame 7)) \<noteq> Inr None"
    if "7 \<notin> set (seen ''0x00000000e1234567_161'')" for seen
    using powertag_fresh(2)
      [where msg = "metering_frame 7" and model = plain_model and seen = seen and io = quiet_io,
       OF metering_frame_facts(1,3), unfolded metering_frame_key metering_frame_facts(2)] that
    by simp
  have first: "7 \<notin> set (empty_store ''0x00000000e1234567_161'')"
    by (simp add: empty_store_def)
  have later: "7 \<notin> set (process_frames [7, 8, 9, 10, 11, 12] empty_store ''0x00000000e1234567_161'')"
    by (simp add: six_frames_later)
  from converted [of empty_store] first
  have 1: "snd (schneider_powertag_convert hasAlreadyProcessedMessage quiet_io empty_store
      plain_model (metering_frame 7)) \<noteq> Inr None"
    by blast
  from converted [of "process_frames [7, 8, 9, 10, 11, 12] empty_store"] later
  have 2: "snd (schneider_powertag_convert hasAlreadyProcessedMessage quiet_io
      (process_frames [7, 8, 9, 10, 11, 12] empty_store) plain_model (metering_frame 7))
      \<noteq> Inr None"
    by blast
  from 1 2 show ?thesis
    by (rule conjI)
qed

text \<open>
  Claim C6, amended. \<open>fzLocal.schneider_powertag\<close> returns nothing for every
  commandCommissioningNotification. On a definition that does not set
  publishDuplicateTransaction it returns nothing, and leaves the record as it is, for every
  commandNotification whose frame counter is among those recorded for the device and the
  command; every other commandNotification is converted and its frame counter is put first
  in that record, of which the five most recent entries are kept. On a definition that sets
  publishDuplicateTransaction no commandNotification is skipped and nothing is recorded.
\<close>

theorem schneider_powertag_skips:
  "(msg_type msg = ''commandCommissioningNotification'' \<longrightarrow>
      snd (schneider_powertag_convert dedup io store model msg) = Inr None)
   \<and> (msg_type msg = ''commandNotification'' \<and> \<not> publishDuplicateTransaction model
        \<and> frameCounter (data msg)
             \<in> set (seen (ieeeAddr (device msg) @ ''_'' @ show_nat (commandID (data msg)))) \<longrightarrow>
        schneider_powertag_convert hasAlreadyProcessedMessage io seen model msg = (seen, Inr None))
   \<and> (msg_type msg = ''commandNotification'' \<and> \<not> publishDuplicateTransaction model
        \<and> frameCounter (data msg)
             \<notin> set (seen (ieeeAddr (device msg) @ ''_'' @ show_nat (commandID (data msg)))) \<longrightarrow>
        snd (schneider_powertag_convert hasAlreadyProcessedMessage io seen model msg) \<noteq> Inr None
        \<and> fst (schneider_powertag_convert hasAlreadyProcessedMessage io seen model msg) =
            seen(ieeeAddr (device msg) @ ''_'' @ show_nat (commandID (data msg)) :=
                   take 5 (frameCounter (data msg)
                     # seen (ieeeAddr (device msg) @ ''_'' @ show_nat (commandID (data msg))))))
   \<and> (msg_type msg = ''commandNotification'' \<and> publishDuplicateTransaction model \<longrightarrow>
        snd (schneider_powertag_convert hasAlreadyProcessedMessage io seen model msg) \<noteq> Inr None
        \<and> fst (schneider_powertag_convert hasAlreadyProcessedMessage io seen model msg) = seen)"
proof -
  have "snd (schneider_powertag_convert dedup io store model msg) = Inr None"
    if "msg_type msg = ''commandCommissioningNotification''"
    using powertag_other_type [of msg dedup io store model] that by simp
  then show ?thesis
    using powertag_recorded [where msg = msg and model = model and seen = seen and io = io]
      powertag_fresh [where msg = msg and model = model and seen = seen and io = io]
      powertag_publish_duplicates [where msg = msg and model = model and seen = seen and io = io]
    by blast
qed

theorem schneider_powertag_skips_witness:
  "snd (schneider_powertag_convert hasAlreadyProcessedMessage quiet_io empty_store plain_model
          commissioning_notification) = Inr None
   \<and> schneider_powertag_convert hasAlreadyProcessedMessage quiet_io
        (process_frames [7, 8, 9, 10, 11, 12] empty_store) plain_model (metering_frame 9)
      = (process_frames [7, 8, 9, 10, 11, 12] empty_store, Inr None)
   \<and> fst (schneider_powertag_convert hasAlreadyProcessedMessage quiet_io
        (process_frames [7, 8, 9, 10, 11, 12] empty_store) plain_model (metering_frame 13))
        ''0x00000000e1234567_161'' = [13, 12, 11, 10, 9]"
proof -
  let ?seen = "process_frames [7, 8, 9, 10, 11, 12] empty_store"
  have c: "msg_type commissioning_notification = ''commandCommissioningNotification''"
    by (simp add: commissioning_notification_def)
  from schneider_powertag_skips
    [of commissioning_notification hasAlreadyProcessedMessage quiet_io empty_store plain_model] c
  have 1: "snd (schneider_powertag_convert hasAlreadyProcessedMessage quiet_io empty_store plain_model
          commissioning_notification) = Inr None"
    by simp
  from schneider_powertag_skips
    [where msg = "metering_frame 9" and seen = ?seen and io = quiet_io and model = plain_model
       and dedup = hasAlreadyProcessedMessage and store = ?seen,
     unfolded metering_frame_key metering_frame_facts(2) six_frames_later]
  have 2: "schneider_powertag_convert hasAlreadyProcessedMessage quiet_io ?seen plain_model
        (metering_frame 9) = (?seen, Inr None)"
    by (simp add: metering_frame_facts)
  from schneider_powertag_skips
    [where msg = "metering_frame 13" and seen = ?seen and io = quiet_io and model = plain_model
       and dedup = hasAlreadyProcessedMessage and store = ?seen,
     unfolded metering_frame_key metering_frame_facts(2) six_frames_later]
  have 3: "fst (schneider_powertag_convert hasAlreadyProcessedMessage quiet_io ?seen plain_model
        (metering_frame 13)) ''0x00000000e1234567_161'' = [13, 12, 11, 10, 9]"
    by (simp add: metering_frame_facts)
  from 1 2 3 show ?thesis
    by simp
qed




end
